theory Spec2Isabelle
  imports Complex_Main "HOL-Library.Multiset"
begin

section \<open>JavaScript strings\<close>

text \<open>
  A JavaScript string is modelled as a \<open>string\<close> (a list of characters); \<open>length\<close>
  plays the role of \<open>.length\<close>. The case mapping and the regular-expression classes
  \<open>\w\<close> and \<open>\s\<close> are modelled on the ASCII range.
\<close>

definition lower_char :: "char \<Rightarrow> char" where
  "lower_char c =
     (if (65::nat) \<le> of_char c \<and> of_char c \<le> (90::nat)
      then char_of (of_char c + (32::nat)) else c)"

definition toLowerCase :: "string \<Rightarrow> string" where
  "toLowerCase s = map lower_char s"

fun startsWith :: "string \<Rightarrow> string \<Rightarrow> bool" where
  "startsWith s [] = True"
| "startsWith [] (c # cs) = False"
| "startsWith (x # xs) (c # cs) = (x = c \<and> startsWith xs cs)"

text \<open>\<open>s.includes(sub)\<close>: \<open>sub\<close> occurs in \<open>s\<close> as a contiguous substring.\<close>

fun str_includes :: "string \<Rightarrow> string \<Rightarrow> bool" where
  "str_includes [] sub = (sub = [])"
| "str_includes (x # xs) sub = (startsWith (x # xs) sub \<or> str_includes xs sub)"

definition is_space :: "char \<Rightarrow> bool" where
  "is_space c = (c \<in> set [CHR '' '', CHR 0x09, CHR 0x0A, CHR 0x0B, CHR 0x0C, CHR 0x0D])"

definition is_word :: "char \<Rightarrow> bool" where
  "is_word c =
     (let n = (of_char c :: nat)
      in (97 \<le> n \<and> n \<le> 122) \<or> (65 \<le> n \<and> n \<le> 90) \<or> (48 \<le> n \<and> n \<le> 57) \<or> n = 95)"

text \<open>
  \<open>s.split(/\s+/)\<close>: the pieces between maximal runs of white space; a leading or
  trailing run yields an empty piece, and the empty string splits into one empty piece.
\<close>

function split_ws_from :: "string \<Rightarrow> string \<Rightarrow> string list" where
  "split_ws_from acc [] = [acc]"
| "split_ws_from acc (c # cs) =
     (if is_space c then acc # split_ws_from [] (dropWhile is_space cs)
      else split_ws_from (acc @ [c]) cs)"
  by pat_completeness auto
termination
  by (relation "measure (\<lambda>(acc, s). length s)")
     (auto simp: length_dropWhile_le less_Suc_eq_le)

definition split_ws :: "string \<Rightarrow> string list" where
  "split_ws s = split_ws_from [] s"

section \<open>MemoryEnvelope (envelope.js)\<close>

datatype kind = Episodic | Semantic | Reflection | KernelRef | Policy | Tombstone

datatype risk = Low | Med | High

text \<open>
  Time stamps (\<open>created_at\<close>, \<open>valid_from\<close>, \<open>valid_until\<close>) are ISO strings in the
  source and are only ever read through \<open>new Date(...)\<close>; they are modelled by the
  number of milliseconds they parse to.
\<close>

type_synonym timestamp = int

record lineage =
  parents :: "string list"
  supersedes :: "string list"
  branches :: "string list"

text \<open>
  Keys and signatures are strings here (their base64 text). A key that is absent
  (\<open>null\<close>) is \<open>None\<close>; the empty string is falsy in JavaScript and is treated so.
\<close>

record attestation =
  attester_id :: string
  level :: string
  signature :: string
  public_key :: "string option"

record envelope =
  mlp_version :: string
  envelope_id :: string
  cid :: "string option"
  content_hash :: "string option"
  created_at :: timestamp
  scope :: string
  kind :: kind
  access_policy_ref :: "string option"
  lineage :: lineage
  attestations :: "attestation list"
  epoch_id :: "string option"
  topic_tags :: "string list"
  risk_class :: risk
  ttl_hint :: string



text \<open>\<open>createTombstone()\<close>; the fresh \<open>envelope_id\<close> and time stamp are inputs.\<close>

definition createTombstone :: "string \<Rightarrow> timestamp \<Rightarrow> envelope \<Rightarrow> envelope" where
  "createTombstone new_id now e =
     \<lparr> mlp_version = mlp_version e, envelope_id = new_id, cid = None, content_hash = None,
       created_at = now, scope = scope e, kind = Tombstone, access_policy_ref = None,
       lineage = \<lparr> parents = [], supersedes = [envelope_id e], branches = [] \<rparr>,
       attestations = [], epoch_id = None, topic_tags = [], risk_class = Low,
       ttl_hint = ''P30D'' \<rparr>"

subsection \<open>verify\<close>








section \<open>Relevance (relevance.js)\<close>

text \<open>
  JavaScript numbers are modelled by exact reals. \<open>Date.now()\<close> is an explicit input:
  the clock reading in milliseconds.
\<close>

record invariants =
  inv_values :: "string list option"
  inv_boundaries :: "string list"

record kernel =
  kernel_id :: string
  kernel_invariants :: "invariants option"

text \<open>The table built by \<open>getKindScoresForIntent\<close>, with its updates in source order.\<close>

definition getKindScoresForIntent :: "string \<Rightarrow> kind \<Rightarrow> real" where
  "getKindScoresForIntent intent =
     (let intentLower = toLowerCase intent;
          scores0 = (\<lambda>k. case k of
                       Semantic \<Rightarrow> 7/10 | Episodic \<Rightarrow> 5/10 | Reflection \<Rightarrow> 6/10
                     | KernelRef \<Rightarrow> 8/10 | Policy \<Rightarrow> 4/10 | Tombstone \<Rightarrow> 0);
          scores1 = (if str_includes intentLower ''reflect'' \<or> str_includes intentLower ''review''
                     then scores0(Reflection := 1, Episodic := 8/10) else scores0);
          scores2 = (if str_includes intentLower ''learn'' \<or> str_includes intentLower ''knowledge''
                     then scores1(Semantic := 1) else scores1);
          scores3 = (if str_includes intentLower ''history'' \<or> str_includes intentLower ''past''
                     then scores2(Episodic := 1) else scores2);
          scores4 = (if str_includes intentLower ''identity'' \<or> str_includes intentLower ''values''
                     then scores3(KernelRef := 1, Reflection := 9/10) else scores3)
      in scores4)"

definition tokenizeIntent :: "string \<Rightarrow> string list" where
  "tokenizeIntent intent =
     filter (\<lambda>t. length t > 2)
       (split_ws (filter (\<lambda>c. is_word c \<or> is_space c) (toLowerCase intent)))"

definition computeTagOverlap :: "string list \<Rightarrow> string list \<Rightarrow> real" where
  "computeTagOverlap intentTokens tags =
     (if length tags = 0 \<or> length intentTokens = 0 then 1/2
      else
        (let tagSet = set (map toLowerCase tags);
             matches = length (filter (\<lambda>t. t \<in> tagSet) intentTokens)
         in real matches / real (max (length intentTokens) (length tags))))"

text \<open>
  \<open>computeValueAlignment\<close>: the nested loops return 0.9 at the first token of a kernel
  value that occurs inside a tag.
\<close>

definition computeValueAlignment :: "envelope \<Rightarrow> kernel option \<Rightarrow> real" where
  "computeValueAlignment e k =
     (case Option.bind (Option.bind k kernel_invariants) inv_values of
        None \<Rightarrow> 1/2
      | Some vs \<Rightarrow>
          (let values = map toLowerCase vs;
               tags = map toLowerCase (topic_tags e)
           in if list_ex (\<lambda>v. list_ex (\<lambda>token. list_ex (\<lambda>t. str_includes t token) tags)
                                 (split_ws v)) values
              then 9/10 else 1/2))"

definition computeRiskScore :: "envelope \<Rightarrow> string \<Rightarrow> real" where
  "computeRiskScore e intent =
     (let intentLower = toLowerCase intent
      in if risk_class e = High then
           (if str_includes intentLower ''sensitive'' \<or> str_includes intentLower ''private''
               \<or> str_includes intentLower ''confidential'' then 1 else 3/10)
         else if risk_class e = Med then 7/10
         else 1)"

definition recencyScore :: "timestamp \<Rightarrow> envelope \<Rightarrow> real" where
  "recencyScore now e =
     (let ageMs = now - created_at e;
          ageDays = real_of_int ageMs / (1000 * 60 * 60 * 24)
      in max 0 (1 - ageDays / 365))"

text \<open>\<open>kindScores[envelope.kind] || 0.5\<close>: a score of 0 is falsy and becomes 0.5.\<close>

definition kindScore :: "string \<Rightarrow> envelope \<Rightarrow> real" where
  "kindScore intent e =
     (let s = getKindScoresForIntent intent (kind e) in if s = 0 then 1/2 else s)"

definition computeRelevance :: "timestamp \<Rightarrow> envelope \<Rightarrow> string \<Rightarrow> kernel option \<Rightarrow> real" where
  "computeRelevance now e intent k =
     (let score = 0
                  + 25/100 * recencyScore now e
                  + 20/100 * kindScore intent e
                  + 25/100 * computeTagOverlap (tokenizeIntent intent) (topic_tags e)
                  + 15/100 * computeValueAlignment e k
                  + 15/100 * computeRiskScore e intent
      in min 1 (max 0 score))"

text \<open>
  Decrypted content is a string or another JavaScript value; \<open>JSON.stringify\<close> is a
  parameter, \<open>None\<close> where it yields no string (\<open>undefined\<close>) or throws, in which case
  \<open>estimateTokens\<close> throws.
\<close>

datatype 'j content = Text string | Value 'j

definition estimateTokens :: "('j \<Rightarrow> string option) \<Rightarrow> 'j content \<Rightarrow> nat option" where
  "estimateTokens stringify c =
     (case (case c of Text s \<Rightarrow> Some s | Value v \<Rightarrow> stringify v) of
        None \<Rightarrow> None
      | Some text \<Rightarrow> Some (nat \<lceil>real (length text) / 4\<rceil>))"

text \<open>
  \<open>Array.prototype.sort(cmp)\<close> is stable; it is modelled by insertion from the right,
  which places an element before the first later one that \<open>cmp\<close> does not put ahead of it.
\<close>

fun insert_by :: "('a \<Rightarrow> 'a \<Rightarrow> real) \<Rightarrow> 'a \<Rightarrow> 'a list \<Rightarrow> 'a list" where
  "insert_by cmp x [] = [x]"
| "insert_by cmp x (y # ys) = (if cmp x y \<le> 0 then x # y # ys else y # insert_by cmp x ys)"

definition sort_by :: "('a \<Rightarrow> 'a \<Rightarrow> real) \<Rightarrow> 'a list \<Rightarrow> 'a list" where
  "sort_by cmp xs = foldr (insert_by cmp) xs []"

record scored =
  item_envelope :: envelope
  item_score :: real

text \<open>
  \<open>scoreEnvelopes\<close>: every call of \<open>computeRelevance\<close> reads the clock itself;
  \<open>clock i\<close> is the reading during the call for the \<open>i\<close>-th envelope.
\<close>

definition score_all :: "(nat \<Rightarrow> timestamp) \<Rightarrow> envelope list \<Rightarrow> string \<Rightarrow> kernel option \<Rightarrow> scored list" where
  "score_all clock envelopes intent k =
     map (\<lambda>(i, env). \<lparr> item_envelope = env, item_score = computeRelevance (clock i) env intent k \<rparr>)
       (enumerate 0 envelopes)"

definition scoreEnvelopes :: "(nat \<Rightarrow> timestamp) \<Rightarrow> envelope list \<Rightarrow> string \<Rightarrow> kernel option \<Rightarrow> scored list" where
  "scoreEnvelopes clock envelopes intent k =
     sort_by (\<lambda>a b. item_score b - item_score a) (score_all clock envelopes intent k)"

section \<open>ContextPack compilation (context-pack.js)\<close>

datatype access_level = Full | Redacted | MetadataOnly | Denied

record 'j slice =
  slice_envelope :: envelope
  decrypted_content :: "'j content option"
  access_level :: access_level
  relevance_score :: real

text \<open>
  The variables of the budgeting loop. The source also declares a list \<open>redacted\<close>,
  which nothing ever writes.
\<close>

record 'j walk_state =
  tokenCount :: int
  included :: "'j slice list"
  denied :: "string list"

definition full_count :: "'j slice list \<Rightarrow> nat" where
  "full_count ms = length (filter (\<lambda>m. access_level m = Full) ms)"

definition deny :: "scored \<Rightarrow> 'j walk_state \<Rightarrow> 'j walk_state" where
  "deny item st = st\<lparr> denied := denied st @ [envelope_id (item_envelope item)] \<rparr>"

definition metadata_slice :: "scored \<Rightarrow> 'j slice" where
  "metadata_slice item =
     \<lparr> slice_envelope = item_envelope item, decrypted_content = None,
       access_level = MetadataOnly, relevance_score = item_score item \<rparr>"

definition full_slice :: "scored \<Rightarrow> 'j content \<Rightarrow> 'j slice" where
  "full_slice item blob =
     \<lparr> slice_envelope = item_envelope item, decrypted_content = Some blob,
       access_level = Full, relevance_score = item_score item \<rparr>"

text \<open>
  The loop \<open>for (const item of scored)\<close>. \<open>fetchAndDecrypt\<close> answers \<open>None\<close> where it
  throws; an exception inside the \<open>try\<close> block denies the item, \<open>continue\<close> goes on with
  the rest of the list, and \<open>break\<close> returns the state as it is.
\<close>

fun walk ::
  "('j \<Rightarrow> string option) \<Rightarrow> (string option \<Rightarrow> 'j content option) \<Rightarrow> int \<Rightarrow> int \<Rightarrow>
   scored list \<Rightarrow> 'j walk_state \<Rightarrow> 'j walk_state" where
  "walk stringify fetchAndDecrypt maxTokens maxMemories [] st = st"
| "walk stringify fetchAndDecrypt maxTokens maxMemories (item # rest) st =
     (if kind (item_envelope item) = Tombstone then
        walk stringify fetchAndDecrypt maxTokens maxMemories rest (deny item st)
      else
        (case fetchAndDecrypt (cid (item_envelope item)) of
           None \<Rightarrow> walk stringify fetchAndDecrypt maxTokens maxMemories rest (deny item st)
         | Some blob \<Rightarrow>
             (case estimateTokens stringify blob of
                None \<Rightarrow> walk stringify fetchAndDecrypt maxTokens maxMemories rest (deny item st)
              | Some tokens \<Rightarrow>
                  if tokenCount st + int tokens > maxTokens then
                    walk stringify fetchAndDecrypt maxTokens maxMemories rest
                      (st\<lparr> included := included st @ [metadata_slice item] \<rparr>)
                  else if int (full_count (included st)) \<ge> maxMemories then st
                  else
                    walk stringify fetchAndDecrypt maxTokens maxMemories rest
                      (st\<lparr> included := included st @ [full_slice item blob],
                          tokenCount := tokenCount st + int tokens \<rparr>))))"

text \<open>The constraints, each absent (\<open>undefined\<close>) or given; absent ones take the defaults.\<close>

record constraints =
  c_scope :: "string list option"
  c_kinds :: "kind list option"
  c_since :: "timestamp option"
  c_maxCandidates :: "int option"
  c_maxTokens :: "int option"
  c_maxMemories :: "int option"

record query =
  q_scope :: "string list"
  q_kinds :: "kind list"
  q_since :: "timestamp option"
  q_limit :: int

definition default_to :: "'a \<Rightarrow> 'a option \<Rightarrow> 'a" where
  "default_to d v = (case v of None \<Rightarrow> d | Some x \<Rightarrow> x)"

definition query_of :: "constraints \<Rightarrow> query" where
  "query_of c =
     \<lparr> q_scope = default_to [''user'', ''agent''] (c_scope c),
       q_kinds = default_to [Episodic, Semantic, Reflection] (c_kinds c),
       q_since = c_since c,
       q_limit = default_to 200 (c_maxCandidates c) \<rparr>"

record compilation_trace =
  requested_by :: string
  trace_intent :: string
  memories_considered :: nat
  memories_included :: nat
  memories_redacted :: nat
  memories_metadata_only :: nat
  memories_denied :: nat
  total_tokens :: int

record 'j context_pack =
  pack_kernel :: kernel
  memory_slices :: "'j slice list"
  trace :: compilation_trace

text \<open>
  \<open>compileContextPack\<close>. Of the pack, the kernel, the memory slices and the trace are
  modelled; the random pack id, the time stamps and the policies gathered from storage
  play no part in the walk.
\<close>

definition compileContextPack ::
  "('j \<Rightarrow> string option) \<Rightarrow> (nat \<Rightarrow> timestamp) \<Rightarrow> kernel \<Rightarrow> string \<Rightarrow> constraints \<Rightarrow>
   (query \<Rightarrow> envelope list) \<Rightarrow> (string option \<Rightarrow> 'j content option) \<Rightarrow> 'j context_pack" where
  "compileContextPack stringify clock k intent c queryEnvelopes fetchAndDecrypt =
     (let maxTokens = default_to 4000 (c_maxTokens c);
          maxMemories = default_to 20 (c_maxMemories c);
          candidates = queryEnvelopes (query_of c);
          scored = scoreEnvelopes clock candidates intent (Some k);
          st = walk stringify fetchAndDecrypt maxTokens maxMemories scored
                 \<lparr> tokenCount = 0, included = [], denied = [] \<rparr>
      in \<lparr> pack_kernel = k,
           memory_slices = included st,
           trace = \<lparr> requested_by = kernel_id k,
                     trace_intent = intent,
                     memories_considered = length candidates,
                     memories_included = full_count (included st),
                     memories_redacted = length (filter (\<lambda>m. access_level m = Redacted) (included st)),
                     memories_metadata_only =
                       length (filter (\<lambda>m. access_level m = MetadataOnly) (included st)),
                     memories_denied = length (denied st),
                     total_tokens = tokenCount st \<rparr> \<rparr>)"

subsection \<open>Measures on the result\<close>

text \<open>The token estimate of a slice's content, and the sum over the full slices.\<close>

definition slice_tokens :: "('j \<Rightarrow> string option) \<Rightarrow> 'j slice \<Rightarrow> int" where
  "slice_tokens stringify s =
     (case decrypted_content s of
        None \<Rightarrow> 0
      | Some b \<Rightarrow> (case estimateTokens stringify b of None \<Rightarrow> 0 | Some n \<Rightarrow> int n))"

definition full_tokens :: "('j \<Rightarrow> string option) \<Rightarrow> 'j slice list \<Rightarrow> int" where
  "full_tokens stringify ms =
     sum_list (map (slice_tokens stringify) (filter (\<lambda>m. access_level m = Full) ms))"

definition meta_count :: "'j slice list \<Rightarrow> nat" where
  "meta_count ms = length (filter (\<lambda>m. access_level m = MetadataOnly) ms)"



section \<open>Encryption (encryption.js)\<close>













section \<open>Storage, local backend (storage.js)\<close>

datatype provider = IPFS | Arweave | Local

text \<open>
  The local store is a directory with one file per address; \<open>files\<close> maps a file
  name in that directory to the file's content. SHA-256 (as lower-case hex) is a
  parameter.
\<close>

record storage =
  provider :: provider
  files :: "string \<rightharpoonup> string"

datatype store_error = NotSerialisable | NotModelled | NotImplemented

definition storeLocal :: "(string \<Rightarrow> string) \<Rightarrow> storage \<Rightarrow> string \<Rightarrow> string \<times> storage" where
  "storeLocal sha256_hex st content =
     (let hash = sha256_hex content;
          cid = ''local_'' @ take 32 hash
      in (cid, st\<lparr> files := (files st)(cid @ ''.json'' \<mapsto> content) \<rparr>))"

text \<open>
  \<open>store(data)\<close>: a string is stored as it is, another value as its JSON text. The
  IPFS backend talks to the network and is not modelled; the Arweave backend throws.
\<close>

definition store ::
  "('j \<Rightarrow> string option) \<Rightarrow> (string \<Rightarrow> string) \<Rightarrow> storage \<Rightarrow> 'j content \<Rightarrow>
   store_error + string \<times> storage" where
  "store stringify sha256_hex st data =
     (case (case data of Text s \<Rightarrow> Some s | Value v \<Rightarrow> stringify v) of
        None \<Rightarrow> Inl NotSerialisable
      | Some content \<Rightarrow>
          (case provider st of
             IPFS \<Rightarrow> Inl NotModelled
           | Arweave \<Rightarrow> Inl NotImplemented
           | Local \<Rightarrow> Inr (storeLocal sha256_hex st content)))"

section \<open>AccessPolicy (access-policy.js)\<close>

text \<open>A principal id is a string or \<open>null\<close>; the wildcard is the string \<open>*\<close>.\<close>

type_synonym principal = "string option"

record policy_constraints =
  valid_from :: "timestamp option"
  valid_until :: "timestamp option"
  max_retrievals :: "nat option"
  allowed_intents :: "string list"
  denied_intents :: "string list"

record redaction =
  enabled :: bool
  fields_to_redact :: "string list"
  redaction_pattern :: string

record policy =
  policy_id :: string
  updated_at :: timestamp
  owner_id :: principal
  principals :: "principal list"
  permissions :: "string \<rightharpoonup> principal list"
  policy_constraints :: policy_constraints
  redaction :: redaction

datatype policy_error = UnknownPermission string

definition createDefault :: "string \<Rightarrow> timestamp \<Rightarrow> principal \<Rightarrow> policy" where
  "createDefault new_id now ownerId =
     \<lparr> policy_id = new_id, updated_at = now, owner_id = ownerId, principals = [ownerId],
       permissions = [''read'' \<mapsto> [ownerId], ''write'' \<mapsto> [ownerId], ''derive'' \<mapsto> [ownerId],
                      ''share'' \<mapsto> [ownerId], ''revoke'' \<mapsto> [ownerId]],
       policy_constraints = \<lparr> valid_from = None, valid_until = None, max_retrievals = None,
                              allowed_intents = [], denied_intents = [] \<rparr>,
       redaction = \<lparr> enabled = False, fields_to_redact = [],
                     redaction_pattern = ''[REDACTED]'' \<rparr> \<rparr>"

definition hasPermission :: "policy \<Rightarrow> principal \<Rightarrow> string \<Rightarrow> bool" where
  "hasPermission p principalId permission =
     (if principalId = owner_id p then True
      else
        (let allowed = (case permissions p permission of None \<Rightarrow> [] | Some l \<Rightarrow> l)
         in principalId \<in> set allowed \<or> Some ''*'' \<in> set allowed))"

record validity =
  v_valid :: bool
  v_reason :: "string option"

text \<open>\<open>isValid()\<close>; \<open>now\<close> is the reading of \<open>new Date()\<close>.\<close>

definition isValid :: "timestamp \<Rightarrow> policy \<Rightarrow> validity" where
  "isValid now p =
     (case valid_from (policy_constraints p) of
        Some f \<Rightarrow>
          if now < f then \<lparr> v_valid = False, v_reason = Some ''Policy not yet active'' \<rparr>
          else
            (case valid_until (policy_constraints p) of
               Some u \<Rightarrow>
                 if now > u then \<lparr> v_valid = False, v_reason = Some ''Policy expired'' \<rparr>
                 else \<lparr> v_valid = True, v_reason = None \<rparr>
             | None \<Rightarrow> \<lparr> v_valid = True, v_reason = None \<rparr>)
      | None \<Rightarrow>
          (case valid_until (policy_constraints p) of
             Some u \<Rightarrow>
               if now > u then \<lparr> v_valid = False, v_reason = Some ''Policy expired'' \<rparr>
               else \<lparr> v_valid = True, v_reason = None \<rparr>
           | None \<Rightarrow> \<lparr> v_valid = True, v_reason = None \<rparr>))"

definition isIntentAllowed :: "policy \<Rightarrow> string \<Rightarrow> bool" where
  "isIntentAllowed p intent =
     (let intentLower = toLowerCase intent
      in if list_ex (\<lambda>d. str_includes intentLower (toLowerCase d))
              (denied_intents (policy_constraints p)) then False
         else if length (allowed_intents (policy_constraints p)) = 0 then True
         else list_ex (\<lambda>a. str_includes intentLower (toLowerCase a))
                (allowed_intents (policy_constraints p)))"

definition revoke :: "timestamp \<Rightarrow> policy \<Rightarrow> principal \<Rightarrow> string \<Rightarrow> policy_error + policy" where
  "revoke now p principalId permission =
     (case permissions p permission of
        None \<Rightarrow> Inl (UnknownPermission permission)
      | Some l \<Rightarrow>
          Inr (p\<lparr> permissions := (permissions p)(permission \<mapsto> filter (\<lambda>i. i \<noteq> principalId) l),
                 updated_at := now \<rparr>))"

definition revokeAll :: "timestamp \<Rightarrow> policy \<Rightarrow> principal \<Rightarrow> policy" where
  "revokeAll now p principalId =
     p\<lparr> permissions := (\<lambda>perm. map_option (filter (\<lambda>i. i \<noteq> principalId)) (permissions p perm)),
        principals := filter (\<lambda>i. i \<noteq> principalId) (principals p),
        updated_at := now \<rparr>"

definition getAccessLevel :: "timestamp \<Rightarrow> policy \<Rightarrow> principal \<Rightarrow> string \<Rightarrow> access_level" where
  "getAccessLevel now p principalId intent =
     (if \<not> v_valid (isValid now p) then Denied
      else if \<not> isIntentAllowed p intent then Denied
      else if \<not> hasPermission p principalId ''read'' then Denied
      else if enabled (redaction p) \<and> principalId \<noteq> owner_id p then Redacted
      else Full)"

section \<open>Concrete inputs\<close>

definition example_envelope :: "string \<Rightarrow> string \<Rightarrow> timestamp \<Rightarrow> kind \<Rightarrow> envelope" where
  "example_envelope eid c t kd =
     \<lparr> mlp_version = ''0.2'', envelope_id = eid, cid = Some c, content_hash = None,
       created_at = t, scope = ''agent'', kind = kd, access_policy_ref = None,
       lineage = \<lparr> parents = [], supersedes = [], branches = [] \<rparr>, attestations = [],
       epoch_id = None, topic_tags = [], risk_class = Low, ttl_hint = ''P30D'' \<rparr>"

definition example_kernel :: kernel where
  "example_kernel = \<lparr> kernel_id = ''kernel-1'', kernel_invariants = None \<rparr>"

definition no_constraints :: constraints where
  "no_constraints =
     \<lparr> c_scope = None, c_kinds = None, c_since = None, c_maxCandidates = None,
       c_maxTokens = None, c_maxMemories = None \<rparr>"

text \<open>A store with two blobs: eight characters under \<open>cA\<close>, three under \<open>cB\<close>.\<close>

definition example_fetch :: "string option \<Rightarrow> unit content option" where
  "example_fetch c =
     (if c = Some ''cA'' then Some (Text ''abcdefgh'')
      else if c = Some ''cB'' then Some (Text ''abc'')
      else None)"

definition no_stringify :: "unit \<Rightarrow> string option" where
  "no_stringify v = None"

definition envA :: envelope where
  "envA = example_envelope ''A'' ''cA'' 1000 Semantic"

definition envB :: envelope where
  "envB = example_envelope ''B'' ''cB'' 0 Semantic"





text \<open>The tombstone written for \<open>envA\<close>: its \<open>lineage.supersedes\<close> is \<open>[A]\<close>.\<close>

definition tombA :: envelope where
  "tombA = createTombstone ''T'' 1000 envA"





definition toy_sha :: "string \<Rightarrow> string" where
  "toy_sha content = rev content"

definition empty_store :: storage where
  "empty_store = \<lparr> provider = Local, files = Map.empty \<rparr>"

text \<open>Alice's default policy, valid until time 10.\<close>

definition expired_policy :: policy where
  "expired_policy =
     (createDefault ''p1'' 0 (Some ''alice''))
       \<lparr> policy_constraints :=
           \<lparr> valid_from = None, valid_until = Some 10, max_retrievals = None,
             allowed_intents = [], denied_intents = [] \<rparr> \<rparr>"

section \<open>Properties\<close>

subsection \<open>The concrete inputs, evaluated\<close>

lemma tokenize_empty: "tokenizeIntent [] = []"
  by (simp add: tokenizeIntent_def toLowerCase_def split_ws_def)

lemma kind_scores_empty:
  "getKindScoresForIntent [] kd =
     (case kd of Semantic \<Rightarrow> 7/10 | Episodic \<Rightarrow> 5/10 | Reflection \<Rightarrow> 6/10
               | KernelRef \<Rightarrow> 8/10 | Policy \<Rightarrow> 4/10 | Tombstone \<Rightarrow> 0)"
  by (cases kd) (simp_all add: getKindScoresForIntent_def toLowerCase_def)

lemma relevance_plain:
  "topic_tags e = [] \<Longrightarrow> risk_class e = Low \<Longrightarrow>
   computeRelevance now e [] (Some example_kernel) =
     min 1 (max 0 (25/100 * recencyScore now e + 20/100 * kindScore [] e + 35/100))"
  by (simp add: computeRelevance_def tokenize_empty computeTagOverlap_def
      computeValueAlignment_def example_kernel_def computeRiskScore_def toLowerCase_def)

lemma score_envA: "computeRelevance 1000 envA [] (Some example_kernel) = 74/100"
  by (simp add: relevance_plain envA_def example_envelope_def recencyScore_def kindScore_def
      kind_scores_empty)



lemma estimateTokens_Text: "estimateTokens sf (Text s) = Some ((length s + 3) div 4)"
proof -
  have "\<lceil>real n / 4\<rceil> = int ((n + 3) div 4)" for n :: nat
    by (simp add: ceiling_eq_iff) linarith
  then show ?thesis by (simp add: estimateTokens_def)
qed

lemma envAB_fields:
  "kind envA = Semantic" "kind envB = Semantic" "cid envA = Some ''cA''" "cid envB = Some ''cB''"
  "envelope_id envA = ''A''" "envelope_id envB = ''B''"
  by (simp_all add: envA_def envB_def example_envelope_def)

lemma example_kernel_id: "kernel_id example_kernel = ''kernel-1''"
  by (simp add: example_kernel_def)





lemma tombA_fields:
  "kind tombA = Tombstone" "cid tombA = None" "envelope_id tombA = ''T''"
  "topic_tags tombA = []" "risk_class tombA = Low" "created_at tombA = 1000"
  "supersedes (lineage tombA) = [''A'']"
  by (simp_all add: tombA_def createTombstone_def envA_def example_envelope_def)

lemma score_tombA: "computeRelevance 1000 tombA [] (Some example_kernel) = 70/100"
  by (simp add: relevance_plain tombA_fields recencyScore_def kindScore_def kind_scores_empty)

lemma scored_A_tomb:
  "scoreEnvelopes (\<lambda>i. 1000) [envA, tombA] [] (Some example_kernel) =
     [\<lparr> item_envelope = envA, item_score = 74/100 \<rparr>,
      \<lparr> item_envelope = tombA, item_score = 70/100 \<rparr>]"
  by (simp add: scoreEnvelopes_def score_all_def sort_by_def score_envA score_tombA)

lemma pack_tombstone:
  "compileContextPack no_stringify (\<lambda>i. 1000) example_kernel [] no_constraints
     (\<lambda>qu. [envA, tombA]) example_fetch
   = \<lparr> pack_kernel = example_kernel,
       memory_slices =
         [full_slice \<lparr> item_envelope = envA, item_score = 74/100 \<rparr> (Text ''abcdefgh'')],
       trace = \<lparr> requested_by = ''kernel-1'', trace_intent = [], memories_considered = 2,
                 memories_included = 1, memories_redacted = 0, memories_metadata_only = 0,
                 memories_denied = 1, total_tokens = 2 \<rparr> \<rparr>"
  by (simp add: compileContextPack_def scored_A_tomb default_to_def no_constraints_def
      envAB_fields tombA_fields example_fetch_def estimateTokens_Text metadata_slice_def
      full_slice_def full_count_def example_kernel_id deny_def)

subsection \<open>Attestations\<close>




subsection \<open>Ranking\<close>









subsection \<open>The relevance score\<close>









subsection \<open>The budgeting loop\<close>

lemma full_count_append [simp]: "full_count (xs @ ys) = full_count xs + full_count ys"
  by (simp add: full_count_def)

lemma meta_count_append [simp]: "meta_count (xs @ ys) = meta_count xs + meta_count ys"
  by (simp add: meta_count_def)

lemma full_tokens_append [simp]: "full_tokens sf (xs @ ys) = full_tokens sf xs + full_tokens sf ys"
  by (simp add: full_tokens_def)

lemma counts_single [simp]:
  "full_count [metadata_slice item] = 0" "full_count [full_slice item b] = 1"
  "meta_count [metadata_slice item] = 1" "meta_count [full_slice item b] = 0"
  "full_tokens sf [metadata_slice item] = 0"
  by (simp_all add: full_count_def meta_count_def full_tokens_def metadata_slice_def full_slice_def)

lemma slice_fields [simp]:
  "slice_envelope (metadata_slice item) = item_envelope item"
  "slice_envelope (full_slice item b) = item_envelope item"
  "access_level (metadata_slice item) = MetadataOnly"
  "access_level (full_slice item b) = Full"
  "decrypted_content (metadata_slice item) = None"
  "decrypted_content (full_slice item b) = Some b"
  by (simp_all add: metadata_slice_def full_slice_def)

lemma full_tokens_single [simp]:
  "estimateTokens sf b = Some n \<Longrightarrow> full_tokens sf [full_slice item b] = int n"
  by (simp add: full_tokens_def full_slice_def slice_tokens_def)

lemma deny_fields [simp]:
  "included (deny item st) = included st" "tokenCount (deny item st) = tokenCount st"
  "denied (deny item st) = denied st @ [envelope_id (item_envelope item)]"
  by (simp_all add: deny_def)








text \<open>No tombstone becomes a slice.\<close>

lemma walk_no_tombstone:
  "list_all (\<lambda>s. kind (slice_envelope s) \<noteq> Tombstone) (included st) \<Longrightarrow>
   list_all (\<lambda>s. kind (slice_envelope s) \<noteq> Tombstone) (included (walk sf fetch T M xs st))"
  by (induction xs arbitrary: st) (auto split: option.splits)















text \<open>
  C1. The code at a candidate set that holds the envelope \<open>A\<close> and the tombstone written
  for it (\<open>lineage.supersedes = [A]\<close>): the tombstone is no slice and is the one denied
  memory, while \<open>A\<close> itself is returned as a full slice with its decrypted content. The
  walk looks at the kind of each candidate only and never at \<open>lineage.supersedes\<close>.
\<close>

theorem tombstone_superseded_envelope_included:
  "kind tombA = Tombstone \<and> supersedes (lineage tombA) = [envelope_id envA]
   \<and> map (\<lambda>s. (envelope_id (slice_envelope s), access_level s, decrypted_content s))
       (memory_slices (compileContextPack no_stringify (\<lambda>i. 1000) example_kernel []
          no_constraints (\<lambda>qu. [envA, tombA]) example_fetch))
       = [(''A'', Full, Some (Text ''abcdefgh''))]
   \<and> memories_considered (trace (compileContextPack no_stringify (\<lambda>i. 1000) example_kernel []
          no_constraints (\<lambda>qu. [envA, tombA]) example_fetch)) = 2
   \<and> memories_denied (trace (compileContextPack no_stringify (\<lambda>i. 1000) example_kernel []
          no_constraints (\<lambda>qu. [envA, tombA]) example_fetch)) = 1"
  by (simp add: pack_tombstone tombA_fields envAB_fields full_slice_def)

subsection \<open>Encryption round trip\<close>





subsection \<open>Local storage\<close>

text \<open>
  C8. For the local backend the address is \<open>local_\<close> followed by the first 32 hex digits
  of the content's SHA-256; storing the same content again returns the same address and
  leaves the store as the first call left it, so that both calls together add exactly one
  file, which holds the content. \<open>store\<close> on a string goes to \<open>storeLocal\<close> when the
  provider is the local one.
\<close>

theorem storeLocal_idempotent:
  "fst (storeLocal sha st X) = ''local_'' @ take 32 (sha X)
   \<and> fst (storeLocal sha (snd (storeLocal sha st X)) X) = fst (storeLocal sha st X)
   \<and> snd (storeLocal sha (snd (storeLocal sha st X)) X) = snd (storeLocal sha st X)
   \<and> dom (files (snd (storeLocal sha (snd (storeLocal sha st X)) X)))
        = insert (fst (storeLocal sha st X) @ ''.json'') (dom (files st))
   \<and> files (snd (storeLocal sha (snd (storeLocal sha st X)) X)) (fst (storeLocal sha st X) @ ''.json'')
        = Some X
   \<and> store sf sha (st\<lparr> provider := Local \<rparr>) (Text X)
        = Inr (storeLocal sha (st\<lparr> provider := Local \<rparr>) X)"
  by (simp add: storeLocal_def store_def Let_def)

theorem storeLocal_idempotent_witness:
  "fst (storeLocal toy_sha empty_store ''abc'') = ''local_cba''
   \<and> fst (storeLocal toy_sha (snd (storeLocal toy_sha empty_store ''abc'')) ''abc'') = ''local_cba''
   \<and> dom (files (snd (storeLocal toy_sha (snd (storeLocal toy_sha empty_store ''abc'')) ''abc'')))
       = {''local_cba.json''}"
  using storeLocal_idempotent [of toy_sha empty_store "''abc''" no_stringify]
  by (simp add: storeLocal_def toy_sha_def empty_store_def)

subsection \<open>Access policies\<close>

text \<open>
  C5. A policy whose \<open>valid_until\<close> lies in the past, or whose \<open>valid_from\<close> lies in the
  future, answers \<open>denied\<close> to \<open>getAccessLevel\<close> for every principal and every intent,
  the owner and the principals listed under \<open>read\<close> included.
\<close>

theorem expired_policy_denies:
  assumes "(valid_until (policy_constraints p) = Some u \<and> u < now)
           \<or> (valid_from (policy_constraints p) = Some f \<and> now < f)"
  shows "getAccessLevel now p principalId intent = Denied"
  using assms
  by (auto simp: getAccessLevel_def isValid_def split: option.splits)

theorem expired_policy_denies_witness:
  "valid_until (policy_constraints expired_policy) = Some 10 \<and> (10::int) < 20
   \<and> owner_id expired_policy = Some ''alice''
   \<and> permissions expired_policy ''read'' = Some [Some ''alice'']
   \<and> getAccessLevel 20 expired_policy (Some ''alice'') ''read my notes'' = Denied"
proof -
  have h: "(valid_until (policy_constraints expired_policy) = Some 10 \<and> (10::int) < 20)
           \<or> (valid_from (policy_constraints expired_policy) = Some 0 \<and> (20::int) < 0)"
    by (simp add: expired_policy_def)
  from expired_policy_denies [OF h] show ?thesis
    by (simp add: expired_policy_def createDefault_def)
qed

text \<open>
  C10. The owner keeps every permission through the revocation interface: after
  \<open>revokeAll(owner)\<close>, and after a \<open>revoke(owner, perm')\<close> that does not throw (it throws
  exactly for a permission name the policy does not have), \<open>hasPermission(owner, perm)\<close>
  is true for every \<open>perm\<close>.
\<close>

theorem owner_keeps_permissions:
  "hasPermission (revokeAll now p (owner_id p)) (owner_id p) perm
   \<and> (case revoke now p (owner_id p) perm' of
         Inl e \<Rightarrow> e = UnknownPermission perm' \<and> permissions p perm' = None
       | Inr p' \<Rightarrow> hasPermission p' (owner_id p) perm \<and> owner_id p' = owner_id p)"
  by (auto simp: hasPermission_def revokeAll_def revoke_def split: option.splits)

theorem owner_keeps_permissions_witness:
  "permissions (revokeAll 5 expired_policy (Some ''alice'')) ''read'' = Some []
   \<and> hasPermission (revokeAll 5 expired_policy (Some ''alice'')) (Some ''alice'') ''read''
   \<and> (case revoke 5 expired_policy (Some ''alice'') ''read'' of
         Inl e \<Rightarrow> False
       | Inr p' \<Rightarrow> permissions p' ''read'' = Some [] \<and> hasPermission p' (Some ''alice'') ''read'')"
  using owner_keeps_permissions [of 5 expired_policy "''read''" "''read''"]
  by (simp add: expired_policy_def createDefault_def revokeAll_def revoke_def)

end
